theory Spec2Isabelle
  imports Main
begin

section \<open>Values\<close>

text \<open>
  A source row holds the cells that \<^verbatim>\<open>pd.read_sql_query\<close> delivers for the TEXT
  columns of the source table: a string, \<^verbatim>\<open>None\<close> (SQL NULL in an object column) or the
  float NaN (the missing-value marker of pandas).
\<close>

datatype pyval = PNone | PNaN | PStr string

text \<open>Python truthiness: \<^verbatim>\<open>None\<close> and \<^verbatim>\<open>""\<close> are falsy, NaN is a non-zero float.\<close>

fun truthy :: "pyval \<Rightarrow> bool" where
  "truthy PNone = False"
| "truthy PNaN = True"
| "truthy (PStr s) = (s \<noteq> [])"

text \<open>\<^verbatim>\<open>a or b\<close>\<close>

definition py_or :: "pyval \<Rightarrow> pyval \<Rightarrow> pyval" where
  "py_or a b = (if truthy a then a else b)"

text \<open>\<^verbatim>\<open>pd.isna(value) or (isinstance(value, float) and math.isnan(value))\<close>\<close>

fun isna :: "pyval \<Rightarrow> bool" where
  "isna PNone = True"
| "isna PNaN = True"
| "isna (PStr s) = False"

text \<open>
  The exceptions of a run: the \<^verbatim>\<open>Exception\<close> raised by the import login, the
  \<^verbatim>\<open>TypeError\<close> of an ill-typed \<^verbatim>\<open>+\<close>, the \<^verbatim>\<open>sqlite3.OperationalError\<close> of a statement
  on a missing table, and what the HTTP library raises.
\<close>

datatype exn =
    Exception string
  | TypeError
  | OperationalError
  | RequestException
  | JSONDecodeError

text \<open>
  \<^verbatim>\<open>field1 + field2\<close>: string concatenation, float addition (NaN + NaN is NaN), and
  \<^verbatim>\<open>TypeError\<close> for every other pair of operand types.
\<close>

fun py_add :: "pyval \<Rightarrow> pyval \<Rightarrow> exn + pyval" where
  "py_add (PStr a) (PStr b) = Inr (PStr (a @ b))"
| "py_add PNaN PNaN = Inr PNaN"
| "py_add _ _ = Inl TypeError"

text \<open>Decimal rendering of an integer, as an f-string does it.\<close>

definition digit_char :: "nat \<Rightarrow> char" where
  "digit_char d = char_of (48 + d)"

fun str_nat :: "nat \<Rightarrow> string" where
  "str_nat n = (if n < 10 then [digit_char n] else str_nat (n div 10) @ [digit_char (n mod 10)])"

definition str_int :: "int \<Rightarrow> string" where
  "str_int i = (if i < 0 then CHR ''-'' # str_nat (nat (- i)) else str_nat (nat i))"

section \<open>Source rows\<close>

text \<open>A row of the DataFrame: column name and cell, in column order.\<close>

type_synonym row = "(string \<times> pyval) list"

text \<open>\<^verbatim>\<open>row.get(key, default)\<close>\<close>

definition row_get :: "row \<Rightarrow> string \<Rightarrow> pyval \<Rightarrow> pyval" where
  "row_get r key dflt = (case map_of r key of None \<Rightarrow> dflt | Some v \<Rightarrow> v)"

section \<open>Local tracking store\<close>

text \<open>
  The table \<^verbatim>\<open>(id TEXT PRIMARY KEY, field1 TEXT, field2 TEXT)\<close>. A Python \<^verbatim>\<open>None\<close> is
  bound as NULL, a string as TEXT, and a NaN float is stored by SQLite as NULL.
\<close>

datatype sqlval = SNull | SText string

fun bind :: "pyval \<Rightarrow> sqlval" where
  "bind PNone = SNull"
| "bind PNaN = SNull"
| "bind (PStr s) = SText s"

text \<open>SQL \<^verbatim>\<open>=\<close> in a WHERE clause: a comparison with NULL is never true.\<close>

fun sql_eq :: "sqlval \<Rightarrow> sqlval \<Rightarrow> bool" where
  "sql_eq (SText a) (SText b) = (a = b)"
| "sql_eq _ _ = False"

record entry =
  col_id :: string
  col_field1 :: sqlval
  col_field2 :: sqlval

type_synonym table = "entry list"

text \<open>
  \<^verbatim>\<open>SELECT 1 FROM t WHERE field1 = ? AND field2 = ?\<close> with the parameters
  \<^verbatim>\<open>(field1 or "", field2 or "")\<close>; the result is \<^verbatim>\<open>bool(rows)\<close>.
\<close>

definition is_duplicate :: "table \<Rightarrow> pyval \<Rightarrow> pyval \<Rightarrow> bool" where
  "is_duplicate t field1 field2 =
     (filter (\<lambda>e. sql_eq (col_field1 e) (bind (py_or field1 (PStr '''')))
                \<and> sql_eq (col_field2 e) (bind (py_or field2 (PStr '''')))) t \<noteq> [])"

text \<open>
  \<^verbatim>\<open>INSERT OR REPLACE INTO t (id, field1, field2) VALUES (?, ?, ?)\<close>: a row with the same
  primary key is deleted, then the new row is added. The values are bound as given.
\<close>

definition insert_entry :: "table \<Rightarrow> string \<Rightarrow> pyval \<Rightarrow> pyval \<Rightarrow> table" where
  "insert_entry t id_val field1 field2 =
     filter (\<lambda>e. col_id e \<noteq> id_val) t
       @ [\<lparr>col_id = id_val, col_field1 = bind field1, col_field2 = bind field2\<rparr>]"

section \<open>Remote service and the world\<close>

datatype jval = JNull | JInt int | JStr string

fun jtruthy :: "jval \<Rightarrow> bool" where
  "jtruthy JNull = False"
| "jtruthy (JInt i) = (i \<noteq> 0)"
| "jtruthy (JStr s) = (s \<noteq> [])"

text \<open>An entry of a LIST page: the values of its keys \<^verbatim>\<open>Id\<close> and \<^verbatim>\<open>DocID\<close> (\<open>JNull\<close> when absent).\<close>

record item =
  Id :: jval
  DocID :: jval

record field =
  FieldName :: string
  Item :: pyval

text \<open>
  The HTTP requests of the three scripts, up to the constant base URL and cabinet id:
  POST Account/Logon, POST Account/Logoff, GET Documents?count=10000, DELETE Documents/id,
  POST Documents with the payload \<^verbatim>\<open>{"Fields": fields}\<close>.
\<close>

datatype request =
    PostLogon
  | PostLogoff
  | GetDocuments
  | DeleteDocument jval
  | PostDocument "field list"

text \<open>
  A response carries its status code, its text and, when the body parses as JSON, the list
  under the key \<^verbatim>\<open>Items\<close> (\<open>Some []\<close> when the key is absent; \<open>None\<close> when
  \<^verbatim>\<open>response.json()\<close> raises).
\<close>

record response =
  status_code :: int
  body_text :: string
  json_items :: "item list option"

datatype outcome = Resp response | Raise exn

text \<open>
  The remote service answers a request as a function of all requests issued so far, the
  current one last.
\<close>

type_synonym remote = "request list \<Rightarrow> outcome"

datatype level = INFO | WARNING | ERROR | STDOUT

text \<open>
  The world of a run: the tracking table (\<open>None\<close> while the table does not exist), the
  requests issued and the lines logged or printed (the message texts of the source, without
  the values that are formatted or interpolated into them).
\<close>

record world =
  db :: "table option"
  reqs :: "request list"
  logs :: "(level \<times> string) list"

definition log :: "level \<Rightarrow> string \<Rightarrow> world \<Rightarrow> world" where
  "log l m w = w\<lparr>logs := logs w @ [(l, m)]\<rparr>"

text \<open>One HTTP call: the request is recorded, the remote service decides the outcome.\<close>

definition http :: "remote \<Rightarrow> request \<Rightarrow> world \<Rightarrow> outcome \<times> world" where
  "http rem rq w = (rem (reqs w @ [rq]), w\<lparr>reqs := reqs w @ [rq]\<rparr>)"

section \<open>Import: insert.py\<close>

definition SQLiteManager_setup :: "world \<Rightarrow> world" where
  "SQLiteManager_setup w =
     log INFO ''SQLite table initialized.''
       (case db w of None \<Rightarrow> w\<lparr>db := Some []\<rparr> | Some t \<Rightarrow> w)"

definition SQLiteManager_is_duplicate :: "pyval \<Rightarrow> pyval \<Rightarrow> world \<Rightarrow> (exn + bool) \<times> world" where
  "SQLiteManager_is_duplicate field1 field2 w =
     (case db w of
        None \<Rightarrow> (Inl OperationalError, w)
      | Some t \<Rightarrow> (Inr (is_duplicate t field1 field2), w))"

definition SQLiteManager_insert :: "string \<Rightarrow> pyval \<Rightarrow> pyval \<Rightarrow> world \<Rightarrow> (exn + unit) \<times> world" where
  "SQLiteManager_insert id_val field1 field2 w =
     (case db w of
        None \<Rightarrow> (Inl OperationalError, w)
      | Some t \<Rightarrow>
          (Inr (), log INFO ''Eintrag gespeichert: %s''
                     (w\<lparr>db := Some (insert_entry t id_val field1 field2)\<rparr>)))"

definition docuware_login :: "remote \<Rightarrow> world \<Rightarrow> (exn + unit) \<times> world" where
  "docuware_login rem w =
     (case http rem PostLogon w of
        (Raise e, w1) \<Rightarrow> (Inl e, w1)
      | (Resp response, w1) \<Rightarrow>
          if status_code response \<noteq> 200
          then (Inl (Exception ''DocuWare login failed.''),
                log ERROR ''DocuWare login failed: %s'' w1)
          else (Inr (), log INFO ''DocuWare login successful.'' w1))"

definition docuware_logout :: "remote \<Rightarrow> world \<Rightarrow> world" where
  "docuware_logout rem w =
     (case http rem PostLogoff w of
        (Raise e, w1) \<Rightarrow> log ERROR ''DocuWare logout error: %s'' w1
      | (Resp response, w1) \<Rightarrow> log INFO ''DocuWare logout successful.'' w1)"

text \<open>
  The desktop database as \<^verbatim>\<open>fetch_data\<close> meets it: the connection fails, the query fails,
  or the query delivers rows.
\<close>

datatype access = ConnectFails | QueryFails | Rows "row list"

definition fetch_data :: "access \<Rightarrow> world \<Rightarrow> row list \<times> world" where
  "fetch_data src w =
     (case src of
        ConnectFails \<Rightarrow> ([], log ERROR ''Failed to connect to Access: %s'' w)
      | QueryFails \<Rightarrow> ([], log ERROR ''Failed to fetch data: %s'' w)
      | Rows df \<Rightarrow> (df, log INFO ''Data fetched successfully.'' w))"

definition send_to_docuware :: "remote \<Rightarrow> field list \<Rightarrow> world \<Rightarrow> outcome \<times> world" where
  "send_to_docuware rem field_list w = http rem (PostDocument field_list) w"

text \<open>The field mapping is a dict: its items are (field name, source column), in order.\<close>

fun build_fields :: "(string \<times> string) list \<Rightarrow> row \<Rightarrow> field list" where
  "build_fields [] row = []"
| "build_fields ((field_name, source) # field_mapping) row =
     (let v = row_get row source (PStr source);
          v = (if isna v then PStr '''' else v)
      in \<lparr>FieldName = field_name, Item = v\<rparr> # build_fields field_mapping row)"

text \<open>
  The skip message of the source: the words "Eintrag bereits importiert", an en dash and
  "uebersprungen." written with u umlaut, as UTF-8 bytes.
\<close>

definition msg_skipped :: string where
  "msg_skipped =
     ''Eintrag bereits importiert '' @ [char_of (0xE2::nat), char_of (0x80::nat), char_of (0x93::nat)]
       @ '' '' @ [char_of (0xC3::nat), char_of (0xBC::nat)] @ ''bersprungen.''"

text \<open>
  The loop over \<^verbatim>\<open>df.iterrows()\<close>. \<open>hash\<close> is Python's built-in hash, which differs from
  run to run. An exception ends the loop where it is raised.
\<close>

fun import_records ::
  "remote \<Rightarrow> (pyval \<Rightarrow> int) \<Rightarrow> (string \<times> string) list \<Rightarrow> row list \<Rightarrow> world
     \<Rightarrow> (exn + unit) \<times> world" where
  "import_records rem hash field_mapping [] w = (Inr (), w)"
| "import_records rem hash field_mapping (row # df) w =
     (let field1 = row_get row ''field1'' (PStr '''');
          field2 = row_get row ''field2'' (PStr '''')
      in case SQLiteManager_is_duplicate field1 field2 w of
           (Inl e, w0) \<Rightarrow> (Inl e, w0)
         | (Inr True, w0) \<Rightarrow> import_records rem hash field_mapping df (log INFO msg_skipped w0)
         | (Inr False, w0) \<Rightarrow>
             (case send_to_docuware rem (build_fields field_mapping row) w0 of
                (Raise e, w1) \<Rightarrow> (Inl e, w1)
              | (Resp response, w1) \<Rightarrow>
                  if status_code response = 200
                  then
                    (let w2 = log INFO ''Eintrag erfolgreich importiert.'' w1
                     in case py_add field1 field2 of
                          Inl e \<Rightarrow> (Inl e, w2)
                        | Inr s \<Rightarrow>
                            (case SQLiteManager_insert (''ID_'' @ str_int (hash s)) field1 field2 w2 of
                               (Inl e, w3) \<Rightarrow> (Inl e, w3)
                             | (Inr u, w3) \<Rightarrow> import_records rem hash field_mapping df w3))
                  else import_records rem hash field_mapping df
                         (log ERROR ''Antwort: %s'' (log ERROR ''Fehler beim Import: %s'' w1))))"

definition import_set1 :: "remote \<Rightarrow> (pyval \<Rightarrow> int) \<Rightarrow> access \<Rightarrow> world \<Rightarrow> (exn + unit) \<times> world" where
  "import_set1 rem hash src w =
     (case fetch_data src w of
        (df, w1) \<Rightarrow>
          if df = [] then (Inr (), log WARNING ''Aborted: No data found for import.'' w1)
          else import_records rem hash [(''field1'', ''field1''), (''field2'', ''field2'')] df w1)"

text \<open>
  \<^verbatim>\<open>main\<close> of insert.py. The \<^verbatim>\<open>try\<close> has a \<^verbatim>\<open>finally\<close> and no \<^verbatim>\<open>except\<close>: the logout
  runs when a session was assigned, and an exception of the body leaves \<^verbatim>\<open>main\<close>.
\<close>

definition insert_main :: "remote \<Rightarrow> (pyval \<Rightarrow> int) \<Rightarrow> access \<Rightarrow> world \<Rightarrow> (exn + unit) \<times> world" where
  "insert_main rem hash src w =
     (case docuware_login rem (SQLiteManager_setup w) of
        (Inl e, w1) \<Rightarrow> (Inl e, w1)
      | (Inr u, w1) \<Rightarrow>
          (case import_set1 rem hash src w1 of
             (r, w2) \<Rightarrow> (r, docuware_logout rem w2)))"

section \<open>Bulk delete: delete.py\<close>

text \<open>The login of delete.py logs a failed status and returns the session all the same.\<close>

definition login :: "remote \<Rightarrow> world \<Rightarrow> (exn + unit) \<times> world" where
  "login rem w =
     (case http rem PostLogon w of
        (Raise e, w1) \<Rightarrow> (Inl e, w1)
      | (Resp response, w1) \<Rightarrow>
          if status_code response \<noteq> 200
          then (Inr (), log ERROR ''Login failed: %s'' w1)
          else (Inr (), log INFO ''Login successful.'' w1))"

text \<open>\<^verbatim>\<open>item.get("Id") or item.get("DocID")\<close>\<close>

definition data_id :: "item \<Rightarrow> jval" where
  "data_id it = (if jtruthy (Id it) then Id it else DocID it)"

text \<open>The inner loop \<^verbatim>\<open>for item in items\<close>.\<close>

fun delete_items :: "remote \<Rightarrow> item list \<Rightarrow> world \<Rightarrow> (exn + unit) \<times> world" where
  "delete_items rem [] w = (Inr (), w)"
| "delete_items rem (it # items) w =
     (case http rem (DeleteDocument (data_id it)) w of
        (Raise e, w1) \<Rightarrow> (Inl e, w1)
      | (Resp del_response, w1) \<Rightarrow>
          delete_items rem items
            (if status_code del_response = 200
             then log INFO ''Deleted DocuWare data entry ID: %s'' w1
             else log ERROR ''Failed to delete DocuWare data entry %s: %s'' w1))"

text \<open>
  The loop \<^verbatim>\<open>while True\<close>: it may run forever, so the result is an option and \<open>None\<close>
  stands for a run that does not return.
\<close>

partial_function (option) delete_docuware_data ::
  "remote \<Rightarrow> world \<Rightarrow> ((exn + unit) \<times> world) option" where
  "delete_docuware_data rem w =
     (case http rem GetDocuments w of
        (Raise e, w1) \<Rightarrow> Some (Inl e, w1)
      | (Resp response, w1) \<Rightarrow>
          if status_code response \<noteq> 200
          then Some (Inr (), log ERROR (body_text response) (log ERROR ''Failed to load data: %s'' w1))
          else
            (case json_items response of
               None \<Rightarrow> Some (Inl JSONDecodeError, w1)
             | Some items \<Rightarrow>
                 (let w2 = log INFO ''Found %d DocuWare data entries to delete.'' w1
                  in if length items = 0
                     then Some (Inr (), log INFO ''No more DocuWare data found. Exiting deletion loop.'' w2)
                     else
                       (case delete_items rem items w2 of
                          (Inl e, w3) \<Rightarrow> Some (Inl e, w3)
                        | (Inr u, w3) \<Rightarrow> delete_docuware_data rem w3))))"

declare delete_docuware_data.simps [code]

definition clear_sqlite_table :: "world \<Rightarrow> world" where
  "clear_sqlite_table w =
     (case db w of
        None \<Rightarrow> log ERROR ''SQLite cleanup failed: %s'' w
      | Some t \<Rightarrow> log INFO ''Local table cleared.'' (w\<lparr>db := Some []\<rparr>))"

text \<open>\<^verbatim>\<open>main\<close> of delete.py: the whole body is inside \<^verbatim>\<open>try ... except Exception\<close>.\<close>

definition delete_main :: "remote \<Rightarrow> world \<Rightarrow> ((exn + unit) \<times> world) option" where
  "delete_main rem w =
     (case login rem w of
        (Inl e, w1) \<Rightarrow> Some (Inr (), log ERROR ''Script failed: %s'' w1)
      | (Inr u, w1) \<Rightarrow>
          (case delete_docuware_data rem w1 of
             None \<Rightarrow> None
           | Some (Inl e, w2) \<Rightarrow> Some (Inr (), log ERROR ''Script failed: %s'' w2)
           | Some (Inr u, w2) \<Rightarrow> Some (Inr (), clear_sqlite_table w2)))"

section \<open>Inspector: view.py\<close>

text \<open>\<^verbatim>\<open>" | ".join(cells)\<close>\<close>

fun join_bar :: "string list \<Rightarrow> string" where
  "join_bar [] = []"
| "join_bar [c] = c"
| "join_bar (c # cs) = c @ '' | '' @ join_bar cs"

text \<open>\<^verbatim>\<open>str(cell) if cell is not None else ""\<close>\<close>

fun cell_str :: "sqlval \<Rightarrow> string" where
  "cell_str SNull = []"
| "cell_str (SText s) = s"

definition row_line :: "entry \<Rightarrow> string" where
  "row_line e = join_bar [col_id e, cell_str (col_field1 e), cell_str (col_field2 e)]"

text \<open>
  \<^verbatim>\<open>print_sqlite_table\<close>, for the table name \<open>tbl\<close>: the whole body is inside
  \<^verbatim>\<open>try ... except Exception\<close>, and a missing table is printed as one error line.
\<close>

definition print_sqlite_table :: "string \<Rightarrow> world \<Rightarrow> (exn + unit) \<times> world" where
  "print_sqlite_table tbl w =
     (case db w of
        None \<Rightarrow> (Inr (), log STDOUT ''Error reading from SQLite: '' w)
      | Some rows \<Rightarrow>
          if rows = [] then (Inr (), log STDOUT ''No records found.'' w)
          else
            (Inr (),
             w\<lparr>logs := logs w
                  @ [(STDOUT, ''Records in '' @ [char_of (39::nat)] @ tbl @ [char_of (39::nat)] @ '':''
                              @ [char_of (10::nat)]),
                     (STDOUT, join_bar [''id'', ''field1'', ''field2'']),
                     (STDOUT, replicate 80 (CHR ''-''))]
                  @ map (\<lambda>e. (STDOUT, row_line e)) rows\<rparr>))"

section \<open>Environments used in the examples\<close>

text \<open>A remote service that answers every request with the same status and no JSON body.\<close>

definition fixed_status :: "int \<Rightarrow> remote" where
  "fixed_status code h = Resp \<lparr>status_code = code, body_text = [], json_items = None\<rparr>"

text \<open>The field mapping of \<^verbatim>\<open>import_set1\<close>.\<close>

definition field_mapping1 :: "(string \<times> string) list" where
  "field_mapping1 = [(''field1'', ''field1''), (''field2'', ''field2'')]"

text \<open>The world at the start of a run on an existing tracking table.\<close>

definition fresh :: "table \<Rightarrow> world" where
  "fresh t = \<lparr>db = Some t, reqs = [], logs = []\<rparr>"

text \<open>A remote service that cannot be reached: every request raises.\<close>

definition unreachable :: remote where
  "unreachable h = Raise RequestException"

text \<open>A hash that maps every value to 7.\<close>

definition const_hash :: "pyval \<Rightarrow> int" where
  "const_hash v = 7"

text \<open>A tracking entry, and the world of a run before the tracking table exists.\<close>

definition entry1 :: entry where
  "entry1 = \<lparr>col_id = ''ID_7'', col_field1 = SText ''a'', col_field2 = SText ''b''\<rparr>"

definition blank :: world where
  "blank = \<lparr>db = None, reqs = [], logs = []\<rparr>"

section \<open>Pages of the remote collection\<close>

text \<open>
  What the bulk delete meets on the remote side. A LIST answer is a page when its status is
  200 and its body holds the items; a request is answered when the HTTP library returns a
  response, whatever its status, and does not raise.
\<close>

definition is_page :: "outcome \<Rightarrow> item list \<Rightarrow> bool" where
  "is_page out page =
     (case out of Raise e \<Rightarrow> False | Resp r \<Rightarrow> status_code r = 200 \<and> json_items r = Some page)"

definition answered :: "outcome \<Rightarrow> bool" where
  "answered out = (case out of Raise e \<Rightarrow> False | Resp r \<Rightarrow> True)"

text \<open>After the requests \<open>h\<close>, the DELETE requests for the items are answered one after the other.\<close>

fun deletes_answered :: "remote \<Rightarrow> request list \<Rightarrow> item list \<Rightarrow> bool" where
  "deletes_answered rem h [] = True"
| "deletes_answered rem h (it # items) =
     (answered (rem (h @ [DeleteDocument (data_id it)]))
      \<and> deletes_answered rem (h @ [DeleteDocument (data_id it)]) items)"

text \<open>The requests of one round of the loop: the LIST call, then one DELETE for each item.\<close>

definition page_requests :: "item list \<Rightarrow> request list" where
  "page_requests page = GetDocuments # map (\<lambda>it. DeleteDocument (data_id it)) page"

text \<open>
  After the requests \<open>h\<close>, the remote service delivers the given pages, none of them empty,
  to the successive LIST calls of the loop, and answers the DELETE requests in between.
\<close>

fun serves :: "remote \<Rightarrow> request list \<Rightarrow> item list list \<Rightarrow> bool" where
  "serves rem h [] = True"
| "serves rem h (page # pages) =
     (page \<noteq> []
      \<and> is_page (rem (h @ [GetDocuments])) page
      \<and> deletes_answered rem (h @ [GetDocuments]) page
      \<and> serves rem (h @ page_requests page) pages)"

fun is_delete :: "request \<Rightarrow> bool" where
  "is_delete (DeleteDocument i) = True"
| "is_delete _ = False"

definition count_gets :: "request list \<Rightarrow> nat" where
  "count_gets h = length (filter (\<lambda>rq. rq = GetDocuments) h)"

text \<open>
  A remote service that holds a list of pages: its n-th LIST answer is the n-th page, and
  the empty page once the list is used up; every other request is answered with 200.
\<close>

definition paged_remote :: "item list list \<Rightarrow> remote" where
  "paged_remote pages h =
     (case rev h of
        GetDocuments # earlier \<Rightarrow>
          Resp \<lparr>status_code = 200, body_text = [],
                json_items = Some (if count_gets earlier < length pages
                                   then pages ! count_gets earlier else [])\<rparr>
      | _ \<Rightarrow> Resp \<lparr>status_code = 200, body_text = [], json_items = None\<rparr>)"

definition item1 :: item where
  "item1 = \<lparr>Id = JInt 1, DocID = JNull\<rparr>"

text \<open>A full page of 10000 entries.\<close>

definition big_page :: "item list" where
  "big_page = replicate 10000 item1"


section \<open>The field transform\<close>

lemma build_fields_length: "length (build_fields fm row) = length fm"
  by (induction fm) (auto simp: Let_def)

lemma build_fields_nth:
  "i < length fm \<Longrightarrow>
   build_fields fm row ! i =
     (let v = row_get row (snd (fm ! i)) (PStr (snd (fm ! i)))
      in \<lparr>FieldName = fst (fm ! i), Item = (if isna v then PStr '''' else v)\<rparr>)"
proof (induction fm arbitrary: i)
  case Nil
  then show ?case by simp
next
  case (Cons p fm)
  obtain fn src where p: "p = (fn, src)" by (cases p)
  show ?case
  proof (cases i)
    case 0
    then show ?thesis by (simp add: p Let_def)
  next
    case (Suc j)
    with Cons show ?thesis by (simp add: p Let_def)
  qed
qed

text \<open>
  Claim C8. In \<^verbatim>\<open>build_fields\<close>, a mapping entry whose source column holds \<^verbatim>\<open>None\<close> or NaN
  in the row yields, at the same position of the submitted field list, the field with the
  empty string as its item: never \<^verbatim>\<open>None\<close>, NaN, or the text "null" or "nan".
\<close>

theorem null_values_become_empty_string:
  assumes "i < length field_mapping"
    and "field_mapping ! i = (field_name, source)"
    and "map_of row source = Some v"
    and "isna v"
  shows "length (build_fields field_mapping row) = length field_mapping
       \<and> build_fields field_mapping row ! i = \<lparr>FieldName = field_name, Item = PStr ''''\<rparr>
       \<and> Item (build_fields field_mapping row ! i) \<noteq> PStr ''null''
       \<and> Item (build_fields field_mapping row ! i) \<noteq> PStr ''nan''
       \<and> Item (build_fields field_mapping row ! i) \<noteq> PNone
       \<and> Item (build_fields field_mapping row ! i) \<noteq> PNaN"
  using assms by (simp add: build_fields_length build_fields_nth row_get_def)

theorem null_values_become_empty_string_witness:
  "(0::nat) < length field_mapping1
   \<and> field_mapping1 ! 0 = (''field1'', ''field1'')
   \<and> map_of [(''field1'', PNaN), (''field2'', PNone)] ''field1'' = Some PNaN
   \<and> isna PNaN
   \<and> build_fields field_mapping1 [(''field1'', PNaN), (''field2'', PNone)] ! 0
      = \<lparr>FieldName = ''field1'', Item = PStr ''''\<rparr>
   \<and> build_fields field_mapping1 [(''field1'', PNaN), (''field2'', PNone)]
      = [\<lparr>FieldName = ''field1'', Item = PStr ''''\<rparr>, \<lparr>FieldName = ''field2'', Item = PStr ''''\<rparr>]"
  using null_values_become_empty_string
    [of 0 field_mapping1 "''field1''" "''field1''" "[(''field1'', PNaN), (''field2'', PNone)]" PNaN]
  by (simp add: field_mapping1_def row_get_def)

text \<open>
  Claim C10. In \<^verbatim>\<open>build_fields\<close>, a mapping entry whose source column is absent from the row
  yields the field whose item is the source column name itself, the default of
  \<^verbatim>\<open>row.get(source, source)\<close>; this is not the empty string (for a column name that is not
  empty).
\<close>

theorem missing_column_yields_column_name:
  assumes "i < length field_mapping"
    and "field_mapping ! i = (field_name, source)"
    and "map_of row source = None"
  shows "build_fields field_mapping row ! i = \<lparr>FieldName = field_name, Item = PStr source\<rparr>
       \<and> (source \<noteq> [] \<longrightarrow> Item (build_fields field_mapping row ! i) \<noteq> PStr '''')"
  using assms by (simp add: build_fields_nth row_get_def)

theorem missing_column_yields_column_name_witness:
  "(1::nat) < length field_mapping1
   \<and> field_mapping1 ! 1 = (''field2'', ''field2'')
   \<and> map_of [(''field1'', PStr ''a'')] ''field2'' = None
   \<and> ''field2'' \<noteq> []
   \<and> build_fields field_mapping1 [(''field1'', PStr ''a'')] ! 1
      = \<lparr>FieldName = ''field2'', Item = PStr ''field2''\<rparr>
   \<and> Item (build_fields field_mapping1 [(''field1'', PStr ''a'')] ! 1) \<noteq> PStr ''''"
  using missing_column_yields_column_name
    [of 1 field_mapping1 "''field2''" "''field2''" "[(''field1'', PStr ''a'')]"]
  by (simp add: field_mapping1_def row_get_def)

section \<open>The tracking store\<close>

text \<open>
  Claim C9. \<^verbatim>\<open>insert\<close> stores field1 and field2 as they are given, while \<^verbatim>\<open>is_duplicate\<close>
  replaces a falsy argument by the empty string before its exact-match comparison. So the
  row that \<^verbatim>\<open>insert(id, field1=None, field2=v)\<close> has just stored is never the one that
  \<^verbatim>\<open>is_duplicate(None, v)\<close> finds, and on an empty table the check after the insert returns
  false.
\<close>

theorem insert_then_is_duplicate_asymmetry:
  "last (insert_entry t id_val field1 field2)
     = \<lparr>col_id = id_val, col_field1 = bind field1, col_field2 = bind field2\<rparr>
   \<and> is_duplicate t field1 field2
       = is_duplicate t (py_or field1 (PStr '''')) (py_or field2 (PStr ''''))
   \<and> is_duplicate (insert_entry t id_val PNone v) PNone v
       = is_duplicate (filter (\<lambda>e. col_id e \<noteq> id_val) t) PNone v
   \<and> \<not> is_duplicate (insert_entry [] id_val PNone v) PNone v"
  by (cases field1; cases field2) (auto simp: insert_entry_def is_duplicate_def py_or_def)

section \<open>The import loop\<close>

lemma import_records_take:
  "n \<le> length (reqs w) \<Longrightarrow>
   take n (reqs (snd (import_records rem hash fm df w))) = take n (reqs w)"
proof (induction df arbitrary: w)
  case Nil
  then show ?case by simp
next
  case (Cons row df)
  show ?case
    using Cons.prems
    by (auto simp: Cons.IH Let_def SQLiteManager_is_duplicate_def send_to_docuware_def http_def
        log_def SQLiteManager_insert_def
        split: option.splits sum.splits outcome.splits prod.splits bool.splits)
qed

lemma first_request_of_new_row:
  assumes "db w = Some t"
    and "\<not> is_duplicate t (row_get row ''field1'' (PStr '''')) (row_get row ''field2'' (PStr ''''))"
  shows "take (Suc (length (reqs w))) (reqs (snd (import_records rem hash fm (row # df) w)))
          = reqs w @ [PostDocument (build_fields fm row)]"
  using assms
  by (auto simp: import_records_take Let_def SQLiteManager_is_duplicate_def send_to_docuware_def
        http_def log_def SQLiteManager_insert_def
        split: option.splits sum.splits outcome.splits prod.splits bool.splits)

text \<open>
  Claim C1. When \<^verbatim>\<open>is_duplicate\<close> returns true for the pair of a row, the import loop issues
  no request for that row: it logs the skip and goes on with the remaining rows, the
  requests issued and the tracking table being what they were.
\<close>

theorem duplicate_row_not_submitted:
  assumes "db w = Some t"
    and "is_duplicate t (row_get row ''field1'' (PStr '''')) (row_get row ''field2'' (PStr ''''))"
  shows "import_records rem hash fm (row # df) w
           = import_records rem hash fm df (log INFO msg_skipped w)
       \<and> reqs (log INFO msg_skipped w) = reqs w
       \<and> db (log INFO msg_skipped w) = db w"
  using assms by (simp add: SQLiteManager_is_duplicate_def log_def)

theorem duplicate_row_not_submitted_witness:
  "db (fresh [\<lparr>col_id = ''ID_7'', col_field1 = SText ''a'', col_field2 = SText ''b''\<rparr>])
     = Some [\<lparr>col_id = ''ID_7'', col_field1 = SText ''a'', col_field2 = SText ''b''\<rparr>]
   \<and> is_duplicate [\<lparr>col_id = ''ID_7'', col_field1 = SText ''a'', col_field2 = SText ''b''\<rparr>]
        (row_get [(''field1'', PStr ''a''), (''field2'', PStr ''b'')] ''field1'' (PStr ''''))
        (row_get [(''field1'', PStr ''a''), (''field2'', PStr ''b'')] ''field2'' (PStr ''''))
   \<and> reqs (snd (import_records (fixed_status 200) (\<lambda>s. 7) field_mapping1
               [[(''field1'', PStr ''a''), (''field2'', PStr ''b'')]]
               (fresh [\<lparr>col_id = ''ID_7'', col_field1 = SText ''a'', col_field2 = SText ''b''\<rparr>])))
      = []"
  using duplicate_row_not_submitted
    [of "fresh [\<lparr>col_id = ''ID_7'', col_field1 = SText ''a'', col_field2 = SText ''b''\<rparr>]"
        "[\<lparr>col_id = ''ID_7'', col_field1 = SText ''a'', col_field2 = SText ''b''\<rparr>]"
        "[(''field1'', PStr ''a''), (''field2'', PStr ''b'')]"
        "fixed_status 200" "\<lambda>s. 7" field_mapping1 "[]"]
  by (simp add: fresh_def is_duplicate_def row_get_def py_or_def log_def)

text \<open>
  Claim C3. When the create request of a row that is not a duplicate is answered with a
  status other than 200, the import loop logs the failure and goes on with the remaining
  rows on an unchanged tracking table, where the pair is still not a duplicate. A run that
  starts on that table and meets the row submits it again: its first request is the create
  request of the row.
\<close>

theorem failed_submission_leaves_store:
  assumes "db w = Some t"
    and "\<not> is_duplicate t (row_get row ''field1'' (PStr '''')) (row_get row ''field2'' (PStr ''''))"
    and "rem (reqs w @ [PostDocument (build_fields fm row)]) = Resp response"
    and "status_code response \<noteq> 200"
  shows "(let w' = log ERROR ''Antwort: %s'' (log ERROR ''Fehler beim Import: %s''
                     (w\<lparr>reqs := reqs w @ [PostDocument (build_fields fm row)]\<rparr>))
          in import_records rem hash fm (row # df) w = import_records rem hash fm df w'
           \<and> db w' = Some t
           \<and> SQLiteManager_is_duplicate (row_get row ''field1'' (PStr ''''))
                 (row_get row ''field2'' (PStr '''')) w' = (Inr False, w')
           \<and> (\<forall>rem2 hash2 df2 w2. db w2 = db w' \<longrightarrow>
                 take (Suc (length (reqs w2)))
                   (reqs (snd (import_records rem2 hash2 fm (row # df2) w2)))
                 = reqs w2 @ [PostDocument (build_fields fm row)]))"
proof -
  let ?w' = "log ERROR ''Antwort: %s'' (log ERROR ''Fehler beim Import: %s''
               (w\<lparr>reqs := reqs w @ [PostDocument (build_fields fm row)]\<rparr>))"
  have step: "import_records rem hash fm (row # df) w = import_records rem hash fm df ?w'"
    using assms
    by (simp add: SQLiteManager_is_duplicate_def send_to_docuware_def http_def log_def)
  have store: "db ?w' = Some t"
    using assms(1) by (simp add: log_def)
  have rerun: "take (Suc (length (reqs w2)))
                 (reqs (snd (import_records rem2 hash2 fm (row # df2) w2)))
               = reqs w2 @ [PostDocument (build_fields fm row)]"
    if "db w2 = db ?w'" for rem2 hash2 df2 w2
  proof (rule first_request_of_new_row [where t = t])
    show "db w2 = Some t" using that store by simp
    show "\<not> is_duplicate t (row_get row ''field1'' (PStr '''')) (row_get row ''field2'' (PStr ''''))"
      by (rule assms(2))
  qed
  have dup: "SQLiteManager_is_duplicate (row_get row ''field1'' (PStr ''''))
               (row_get row ''field2'' (PStr '''')) ?w' = (Inr False, ?w')"
    using store assms(2) by (simp add: SQLiteManager_is_duplicate_def)
  show ?thesis
    unfolding Let_def using step store dup rerun by blast
qed

theorem failed_submission_leaves_store_witness:
  "db (fresh []) = Some []
   \<and> \<not> is_duplicate []
        (row_get [(''field1'', PStr ''a''), (''field2'', PStr ''b'')] ''field1'' (PStr ''''))
        (row_get [(''field1'', PStr ''a''), (''field2'', PStr ''b'')] ''field2'' (PStr ''''))
   \<and> fixed_status 500
        (reqs (fresh []) @ [PostDocument (build_fields field_mapping1
                                            [(''field1'', PStr ''a''), (''field2'', PStr ''b'')])])
      = Resp \<lparr>status_code = 500, body_text = [], json_items = None\<rparr>
   \<and> status_code \<lparr>status_code = 500, body_text = [], json_items = None\<rparr> \<noteq> 200
   \<and> import_records (fixed_status 500) (\<lambda>s. 7) field_mapping1
        [[(''field1'', PStr ''a''), (''field2'', PStr ''b'')]] (fresh [])
      = (Inr (),
         \<lparr>db = Some [],
          reqs = [PostDocument [\<lparr>FieldName = ''field1'', Item = PStr ''a''\<rparr>,
                                \<lparr>FieldName = ''field2'', Item = PStr ''b''\<rparr>]],
          logs = [(ERROR, ''Fehler beim Import: %s''), (ERROR, ''Antwort: %s'')]\<rparr>)
   \<and> take (Suc (length (reqs (fresh []))))
        (reqs (snd (import_records (fixed_status 200) (\<lambda>s. 7) field_mapping1
                      [[(''field1'', PStr ''a''), (''field2'', PStr ''b'')]] (fresh []))))
      = [PostDocument [\<lparr>FieldName = ''field1'', Item = PStr ''a''\<rparr>,
                       \<lparr>FieldName = ''field2'', Item = PStr ''b''\<rparr>]]"
proof -
  let ?row = "[(''field1'', PStr ''a''), (''field2'', PStr ''b'')]"
  have h1: "db (fresh []) = Some []"
    by (simp add: fresh_def)
  have h2: "\<not> is_duplicate [] (row_get ?row ''field1'' (PStr '''')) (row_get ?row ''field2'' (PStr ''''))"
    by (simp add: is_duplicate_def)
  have h3: "fixed_status 500 (reqs (fresh []) @ [PostDocument (build_fields field_mapping1 ?row)])
              = Resp \<lparr>status_code = 500, body_text = [], json_items = None\<rparr>"
    by (simp add: fixed_status_def)
  have h4: "status_code \<lparr>status_code = 500, body_text = [], json_items = None\<rparr> \<noteq> 200"
    by simp
  note step = failed_submission_leaves_store
    [where w = "fresh []" and t = "[]" and row = ?row and rem = "fixed_status 500"
       and fm = field_mapping1 and hash = "\<lambda>s. 7" and df = "[]", OF h1 h2 h3 h4]
  have fields: "build_fields field_mapping1 ?row
      = [\<lparr>FieldName = ''field1'', Item = PStr ''a''\<rparr>, \<lparr>FieldName = ''field2'', Item = PStr ''b''\<rparr>]"
    by (simp add: field_mapping1_def row_get_def)
  from step have run: "import_records (fixed_status 500) (\<lambda>s. 7) field_mapping1 [?row] (fresh [])
      = (Inr (),
         \<lparr>db = Some [],
          reqs = [PostDocument [\<lparr>FieldName = ''field1'', Item = PStr ''a''\<rparr>,
                                \<lparr>FieldName = ''field2'', Item = PStr ''b''\<rparr>]],
          logs = [(ERROR, ''Fehler beim Import: %s''), (ERROR, ''Antwort: %s'')]\<rparr>)"
    by (simp add: Let_def fields fresh_def log_def)
  from step have "\<forall>rem2 hash2 df2 w2. db w2 = Some [] \<longrightarrow>
                 take (Suc (length (reqs w2)))
                   (reqs (snd (import_records rem2 hash2 field_mapping1 (?row # df2) w2)))
                 = reqs w2 @ [PostDocument (build_fields field_mapping1 ?row)]"
    by (simp add: Let_def fresh_def log_def)
  then have rerun: "take (Suc (length (reqs (fresh []))))
        (reqs (snd (import_records (fixed_status 200) (\<lambda>s. 7) field_mapping1 [?row] (fresh []))))
      = reqs (fresh []) @ [PostDocument (build_fields field_mapping1 ?row)]"
    using h1 by blast
  show ?thesis
    using h1 h2 h3 h4 run rerun by (simp add: fields fresh_def)
qed

lemma is_duplicate_after_insert:
  "is_duplicate (insert_entry t i (PStr a) (PStr b)) (PStr a) (PStr b)"
  by (simp add: insert_entry_def is_duplicate_def py_or_def)

lemma text_row_recorded:
  assumes "db w = Some t"
    and "map_of row ''field1'' = Some (PStr a)"
    and "map_of row ''field2'' = Some (PStr b)"
    and "\<not> is_duplicate t (PStr a) (PStr b)"
    and "rem (reqs w @ [PostDocument (build_fields fm row)]) = Resp response"
    and "status_code response = 200"
  shows "(let t' = insert_entry t (''ID_'' @ str_int (hash (PStr (a @ b)))) (PStr a) (PStr b);
              w' = log INFO ''Eintrag gespeichert: %s''
                     ((log INFO ''Eintrag erfolgreich importiert.''
                        (w\<lparr>reqs := reqs w @ [PostDocument (build_fields fm row)]\<rparr>))\<lparr>db := Some t'\<rparr>)
          in import_records rem hash fm (row # df) w = import_records rem hash fm df w'
           \<and> db w' = Some t'
           \<and> is_duplicate t' (PStr a) (PStr b))"
  using assms
  by (simp add: Let_def row_get_def SQLiteManager_is_duplicate_def SQLiteManager_insert_def
        send_to_docuware_def http_def log_def is_duplicate_after_insert)


text \<open>
  Claim C2, at a row with a null field. The row (field1 = \<^verbatim>\<open>None\<close>, field2 = "x") is not a
  duplicate on an empty table, so it is submitted; the answer is 200; then
  \<^verbatim>\<open>hash(field1+field2)\<close> raises \<^verbatim>\<open>TypeError\<close> before \<^verbatim>\<open>insert\<close> is reached. The loop ends
  with that exception, the tracking table is still empty, and \<^verbatim>\<open>is_duplicate\<close> is still
  false for the pair.
\<close>

theorem null_field_row_not_recorded:
  "import_records (fixed_status 200) hash field_mapping1
     [[(''field1'', PNone), (''field2'', PStr ''x'')]] (fresh [])
   = (Inl TypeError,
      \<lparr>db = Some [],
       reqs = [PostDocument [\<lparr>FieldName = ''field1'', Item = PStr ''''\<rparr>,
                             \<lparr>FieldName = ''field2'', Item = PStr ''x''\<rparr>]],
       logs = [(INFO, ''Eintrag erfolgreich importiert.'')]\<rparr>)
   \<and> \<not> is_duplicate [] PNone (PStr ''x'')"
  by (simp add: fixed_status_def field_mapping1_def fresh_def SQLiteManager_is_duplicate_def
      is_duplicate_def send_to_docuware_def http_def log_def row_get_def py_or_def)

section \<open>The bulk-delete loop\<close>

lemma delete_items_answered:
  "deletes_answered rem (reqs w) items \<Longrightarrow>
   \<exists>w'. delete_items rem items w = (Inr (), w')
        \<and> reqs w' = reqs w @ map (\<lambda>it. DeleteDocument (data_id it)) items
        \<and> db w' = db w"
proof (induction items arbitrary: w)
  case Nil
  then show ?case by simp
next
  case (Cons it items)
  let ?w1 = "w\<lparr>reqs := reqs w @ [DeleteDocument (data_id it)]\<rparr>"
  from Cons.prems obtain r where r: "rem (reqs w @ [DeleteDocument (data_id it)]) = Resp r"
    by (auto simp: answered_def split: outcome.splits)
  let ?w2 = "if status_code r = 200 then log INFO ''Deleted DocuWare data entry ID: %s'' ?w1
             else log ERROR ''Failed to delete DocuWare data entry %s: %s'' ?w1"
  have step: "delete_items rem (it # items) w = delete_items rem items ?w2"
    by (simp add: http_def r)
  have w2: "reqs ?w2 = reqs w @ [DeleteDocument (data_id it)]" "db ?w2 = db w"
    by (simp_all add: log_def)
  from Cons.prems have "deletes_answered rem (reqs ?w2) items"
    by (simp add: w2)
  from Cons.IH [OF this] obtain w' where
    "delete_items rem items ?w2 = (Inr (), w')"
    "reqs w' = reqs ?w2 @ map (\<lambda>it. DeleteDocument (data_id it)) items"
    "db w' = db ?w2"
    by blast
  then show ?case
    unfolding step w2 by simp
qed

lemma delete_loop_unroll:
  "serves rem (reqs w) pages \<Longrightarrow>
   \<exists>w'. delete_docuware_data rem w = delete_docuware_data rem w'
        \<and> reqs w' = reqs w @ concat (map page_requests pages)
        \<and> db w' = db w"
proof (induction pages arbitrary: w)
  case Nil
  then show ?case by auto
next
  case (Cons page pages)
  let ?w1 = "w\<lparr>reqs := reqs w @ [GetDocuments]\<rparr>"
  let ?w2 = "log INFO ''Found %d DocuWare data entries to delete.'' ?w1"
  from Cons.prems obtain r where r: "rem (reqs w @ [GetDocuments]) = Resp r"
    "status_code r = 200" "json_items r = Some page"
    by (auto simp: is_page_def split: outcome.splits)
  from Cons.prems have ne: "page \<noteq> []" by simp
  from Cons.prems have "deletes_answered rem (reqs ?w2) page"
    by (simp add: log_def)
  from delete_items_answered [OF this] obtain w3 where w3:
    "delete_items rem page ?w2 = (Inr (), w3)"
    "reqs w3 = reqs ?w2 @ map (\<lambda>it. DeleteDocument (data_id it)) page"
    "db w3 = db ?w2"
    by blast
  have step: "delete_docuware_data rem w = delete_docuware_data rem w3"
    by (subst delete_docuware_data.simps) (simp add: http_def r ne w3(1))
  have reqs3: "reqs w3 = reqs w @ page_requests page"
    using w3(2) by (simp add: log_def page_requests_def)
  have db3: "db w3 = db w"
    using w3(3) by (simp add: log_def)
  from Cons.prems have "serves rem (reqs w3) pages"
    by (simp add: reqs3)
  from Cons.IH [OF this] obtain w' where
    "delete_docuware_data rem w3 = delete_docuware_data rem w'"
    "reqs w' = reqs w3 @ concat (map page_requests pages)"
    "db w' = db w3"
    by blast
  then show ?case
    using step reqs3 db3 by auto
qed

lemma filter_is_delete_page_requests:
  "length (filter is_delete (page_requests page)) = length page"
  by (simp add: page_requests_def filter_map comp_def)

lemma filter_is_delete_pages:
  "length (filter is_delete (concat (map page_requests pages))) = sum_list (map length pages)"
  by (induction pages) (simp_all add: filter_is_delete_page_requests)

lemma count_gets_rev: "count_gets (rev h) = count_gets h"
  by (simp add: count_gets_def flip: rev_filter)

lemma paged_remote_get:
  "paged_remote pages (h @ [GetDocuments])
     = Resp \<lparr>status_code = 200, body_text = [],
             json_items = Some (if count_gets h < length pages then pages ! count_gets h else [])\<rparr>"
  by (simp add: paged_remote_def count_gets_rev)

lemma paged_remote_delete:
  "paged_remote pages (h @ [DeleteDocument i])
     = Resp \<lparr>status_code = 200, body_text = [], json_items = None\<rparr>"
  by (simp add: paged_remote_def)

lemma paged_remote_deletes_answered: "deletes_answered (paged_remote ps) h items"
  by (induction items arbitrary: h) (simp_all add: paged_remote_delete answered_def)

lemma count_gets_page_requests:
  "count_gets (h @ page_requests page) = Suc (count_gets h)"
  by (simp add: count_gets_def page_requests_def filter_map comp_def)

lemma paged_remote_serves:
  "count_gets h = length pre \<Longrightarrow> \<forall>p \<in> set pages. p \<noteq> [] \<Longrightarrow>
   serves (paged_remote (pre @ pages)) h pages"
proof (induction pages arbitrary: pre h)
  case Nil
  then show ?case by simp
next
  case (Cons page pages)
  have "count_gets (h @ page_requests page) = length (pre @ [page])"
    using Cons.prems(1) by (simp add: count_gets_page_requests)
  from Cons.IH [OF this] Cons.prems(2)
  have "serves (paged_remote (pre @ page # pages)) (h @ page_requests page) pages"
    by simp
  then show ?case
    using Cons.prems
    by (simp add: paged_remote_get paged_remote_deletes_answered is_page_def)
qed

lemma big_page_length: "length big_page = 10000"
  by (simp add: big_page_def)

lemma big_page_nonempty: "big_page \<noteq> []"
  using big_page_length by auto

text \<open>
  Claim C4. When the remote service delivers the pages \<open>pages\<close> (none empty) to the
  successive LIST calls, answers the DELETE requests, and then delivers an empty page, the
  bulk-delete loop returns. The requests it has issued are, for each page in turn, the LIST
  call followed by exactly one DELETE for each entry of the page, and then the one LIST call
  that found nothing; the DELETE requests number the entries of all pages. For pages of
  10000, 10000 and 0 entries that is 20000 DELETE requests and 3 LIST calls.
\<close>

theorem bulk_delete_requests:
  assumes "serves rem (reqs w) pages"
    and "is_page (rem (reqs w @ concat (map page_requests pages) @ [GetDocuments])) []"
  shows "\<exists>w'. delete_docuware_data rem w = Some (Inr (), w')
           \<and> reqs w' = reqs w @ concat (map page_requests pages) @ [GetDocuments]
           \<and> length (filter is_delete (reqs w'))
               = length (filter is_delete (reqs w)) + sum_list (map length pages)
           \<and> db w' = db w"
proof -
  from delete_loop_unroll [OF assms(1)] obtain w1 where w1:
    "delete_docuware_data rem w = delete_docuware_data rem w1"
    "reqs w1 = reqs w @ concat (map page_requests pages)"
    "db w1 = db w"
    by blast
  from assms(2) obtain r where r: "rem (reqs w1 @ [GetDocuments]) = Resp r"
    "status_code r = 200" "json_items r = Some []"
    by (auto simp: is_page_def w1(2) split: outcome.splits)
  let ?w' = "log INFO ''No more DocuWare data found. Exiting deletion loop.''
               (log INFO ''Found %d DocuWare data entries to delete.''
                  (w1\<lparr>reqs := reqs w1 @ [GetDocuments]\<rparr>))"
  have "delete_docuware_data rem w1 = Some (Inr (), ?w')"
    by (subst delete_docuware_data.simps) (simp add: http_def r)
  moreover have "reqs ?w' = reqs w @ concat (map page_requests pages) @ [GetDocuments]"
    by (simp add: log_def w1(2))
  moreover have "db ?w' = db w"
    by (simp add: log_def w1(3))
  ultimately show ?thesis
    using w1(1) by (simp add: filter_is_delete_pages)
qed

theorem bulk_delete_requests_witness:
  "serves (paged_remote [big_page, big_page]) (reqs (fresh [])) [big_page, big_page]
   \<and> is_page (paged_remote [big_page, big_page]
                (reqs (fresh []) @ concat (map page_requests [big_page, big_page]) @ [GetDocuments])) []
   \<and> (\<exists>w'. delete_docuware_data (paged_remote [big_page, big_page]) (fresh []) = Some (Inr (), w')
          \<and> length (filter is_delete (reqs w')) = 20000
          \<and> count_gets (reqs w') = 3)"
proof -
  let ?rem = "paged_remote [big_page, big_page]"
  have h0: "reqs (fresh []) = []"
    by (simp add: fresh_def)
  have h1: "serves ?rem (reqs (fresh [])) [big_page, big_page]"
    using paged_remote_serves [of "[]" "[]" "[big_page, big_page]"]
    by (simp add: h0 count_gets_def big_page_nonempty)
  have cnt: "count_gets (page_requests big_page @ page_requests big_page) = 2"
    using count_gets_page_requests [of "[]" big_page]
      count_gets_page_requests [of "page_requests big_page" big_page]
    by (simp add: count_gets_def)
  have h2: "is_page (?rem (reqs (fresh []) @ concat (map page_requests [big_page, big_page])
                              @ [GetDocuments])) []"
    using paged_remote_get [of "[big_page, big_page]" "concat (map page_requests [big_page, big_page])"]
    by (simp add: h0 cnt is_page_def)
  from bulk_delete_requests [OF h1 h2] obtain w' where w':
    "delete_docuware_data ?rem (fresh []) = Some (Inr (), w')"
    "reqs w' = reqs (fresh []) @ concat (map page_requests [big_page, big_page]) @ [GetDocuments]"
    "length (filter is_delete (reqs w'))
       = length (filter is_delete (reqs (fresh []))) + sum_list (map length [big_page, big_page])"
    by blast
  have "length (filter is_delete (reqs w')) = 20000"
    using w'(3) by (simp add: h0 big_page_length)
  moreover have "count_gets (reqs w') = 3"
    using cnt by (simp add: w'(2) h0 count_gets_def)
  ultimately show ?thesis
    using h1 h2 w'(1) by blast
qed

lemma list_failure_breaks_loop:
  assumes "rem (reqs w @ [GetDocuments]) = Resp r" and "status_code r \<noteq> 200"
  shows "delete_docuware_data rem w
         = Some (Inr (), log ERROR (body_text r) (log ERROR ''Failed to load data: %s''
                   (w\<lparr>reqs := reqs w @ [GetDocuments]\<rparr>)))"
  by (subst delete_docuware_data.simps) (simp add: http_def assms)

lemma db_clear_sqlite_table: "db (clear_sqlite_table w) = map_option (\<lambda>t. []) (db w)"
  by (simp add: clear_sqlite_table_def log_def split: option.splits)

lemma reqs_clear_sqlite_table: "reqs (clear_sqlite_table w) = reqs w"
  by (simp add: clear_sqlite_table_def log_def split: option.splits)

text \<open>
  Claim C5, as the code has it. When a LIST call of the bulk-delete flow, the first one or
  one after some pages, is answered with a status other than 200, the loop breaks: that
  LIST call is the last request of the run. \<^verbatim>\<open>main\<close> then calls \<^verbatim>\<open>clear_sqlite_table\<close> all
  the same, so an existing tracking table is left empty.
\<close>

theorem list_failure_then_table_cleared:
  assumes "rem (reqs w @ [PostLogon]) = Resp r0"
    and "serves rem (reqs w @ [PostLogon]) pages"
    and "rem (reqs w @ [PostLogon] @ concat (map page_requests pages) @ [GetDocuments]) = Resp r"
    and "status_code r \<noteq> 200"
  shows "\<exists>w'. delete_main rem w = Some (Inr (), w')
           \<and> reqs w' = reqs w @ [PostLogon] @ concat (map page_requests pages) @ [GetDocuments]
           \<and> db w' = map_option (\<lambda>t. []) (db w)"
proof -
  let ?w0 = "w\<lparr>reqs := reqs w @ [PostLogon]\<rparr>"
  let ?w1 = "if status_code r0 \<noteq> 200 then log ERROR ''Login failed: %s'' ?w0
             else log INFO ''Login successful.'' ?w0"
  have lg: "login rem w = (Inr (), ?w1)"
    by (simp add: login_def http_def assms(1))
  have w1: "reqs ?w1 = reqs w @ [PostLogon]" "db ?w1 = db w"
    by (simp_all add: log_def)
  from assms(2) have "serves rem (reqs ?w1) pages"
    by (simp add: w1)
  from delete_loop_unroll [OF this] obtain w2 where w2:
    "delete_docuware_data rem ?w1 = delete_docuware_data rem w2"
    "reqs w2 = reqs ?w1 @ concat (map page_requests pages)"
    "db w2 = db ?w1"
    by blast
  let ?w3 = "log ERROR (body_text r) (log ERROR ''Failed to load data: %s''
               (w2\<lparr>reqs := reqs w2 @ [GetDocuments]\<rparr>))"
  have "rem (reqs w2 @ [GetDocuments]) = Resp r"
    using assms(3) by (simp add: w2(2) w1)
  from list_failure_breaks_loop [where rem = rem and w = w2 and r = r, OF this assms(4)]
  have loop: "delete_docuware_data rem ?w1 = Some (Inr (), ?w3)"
    by (simp add: w2(1))
  have main: "delete_main rem w = Some (Inr (), clear_sqlite_table ?w3)"
    unfolding delete_main_def lg using loop by simp
  have "reqs (clear_sqlite_table ?w3)
          = reqs w @ [PostLogon] @ concat (map page_requests pages) @ [GetDocuments]"
    by (simp add: reqs_clear_sqlite_table log_def w2(2) w1)
  moreover have "db (clear_sqlite_table ?w3) = map_option (\<lambda>t. []) (db w)"
    by (simp add: db_clear_sqlite_table log_def w2(3) w1)
  ultimately show ?thesis
    using main by blast
qed

theorem list_failure_then_table_cleared_witness:
  "fixed_status 500 (reqs (fresh [entry1]) @ [PostLogon])
     = Resp \<lparr>status_code = 500, body_text = [], json_items = None\<rparr>
   \<and> serves (fixed_status 500) (reqs (fresh [entry1]) @ [PostLogon]) []
   \<and> fixed_status 500 (reqs (fresh [entry1]) @ [PostLogon] @ concat (map page_requests [])
                          @ [GetDocuments])
     = Resp \<lparr>status_code = 500, body_text = [], json_items = None\<rparr>
   \<and> status_code \<lparr>status_code = 500, body_text = [], json_items = None\<rparr> \<noteq> 200
   \<and> (\<exists>w'. delete_main (fixed_status 500) (fresh [entry1]) = Some (Inr (), w')
          \<and> reqs w' = [PostLogon, GetDocuments]
          \<and> db w' = Some [])"
proof -
  let ?r = "\<lparr>status_code = 500, body_text = [], json_items = None\<rparr>"
  have h1: "fixed_status 500 (reqs (fresh [entry1]) @ [PostLogon]) = Resp ?r"
    by (simp add: fixed_status_def)
  have h2: "serves (fixed_status 500) (reqs (fresh [entry1]) @ [PostLogon]) []"
    by simp
  have h3: "fixed_status 500 (reqs (fresh [entry1]) @ [PostLogon] @ concat (map page_requests [])
                                @ [GetDocuments]) = Resp ?r"
    by (simp add: fixed_status_def)
  have h4: "status_code ?r \<noteq> 200"
    by simp
  from list_failure_then_table_cleared [OF h1 h2 h3 h4]
  have "\<exists>w'. delete_main (fixed_status 500) (fresh [entry1]) = Some (Inr (), w')
          \<and> reqs w' = [PostLogon, GetDocuments] \<and> db w' = Some []"
    by (simp add: fresh_def)
  then show ?thesis
    using h1 h2 h3 h4 by blast
qed

text \<open>
  The run on a table with one entry, against a service that answers every request with
  500: the table is empty afterwards, not unchanged.
\<close>

theorem list_failure_keeps_table_counterexample:
  "delete_main (fixed_status 500) (fresh [entry1])
     = Some (Inr (),
             \<lparr>db = Some [],
              reqs = [PostLogon, GetDocuments],
              logs = [(ERROR, ''Login failed: %s''), (ERROR, ''Failed to load data: %s''),
                      (ERROR, []), (INFO, ''Local table cleared.'')]\<rparr>)
   \<and> db (fresh [entry1]) = Some [entry1]
   \<and> Some [entry1] \<noteq> Some []"
proof -
  have "delete_docuware_data (fixed_status 500)
          \<lparr>db = Some [entry1], reqs = [PostLogon], logs = [(ERROR, ''Login failed: %s'')]\<rparr>
        = Some (Inr (), \<lparr>db = Some [entry1], reqs = [PostLogon, GetDocuments],
                   logs = [(ERROR, ''Login failed: %s''), (ERROR, ''Failed to load data: %s''),
                           (ERROR, [])]\<rparr>)"
    by (subst delete_docuware_data.simps) (simp add: http_def fixed_status_def log_def)
  then show ?thesis
    by (simp add: delete_main_def login_def http_def fixed_status_def fresh_def log_def
        clear_sqlite_table_def)
qed

section \<open>The entry points\<close>

text \<open>
  Claim C7. When the login request is answered with a status other than 200, the import
  entry point ends with the exception "DocuWare login failed.": the login is its only
  request, so no row is fetched or submitted. The login of the delete flow logs the failure
  and returns, and \<^verbatim>\<open>main\<close> of the delete flow goes on with the deletion loop and what
  follows it, as after a successful login.
\<close>

theorem login_failure_import_aborts_delete_proceeds:
  assumes "rem (reqs w @ [PostLogon]) = Resp r"
    and "status_code r \<noteq> 200"
  shows "insert_main rem hash src w
           = (Inl (Exception ''DocuWare login failed.''),
              log ERROR ''DocuWare login failed: %s''
                ((SQLiteManager_setup w)\<lparr>reqs := reqs w @ [PostLogon]\<rparr>))
       \<and> reqs (snd (insert_main rem hash src w)) = reqs w @ [PostLogon]
       \<and> (let w1 = log ERROR ''Login failed: %s'' (w\<lparr>reqs := reqs w @ [PostLogon]\<rparr>)
          in login rem w = (Inr (), w1)
           \<and> delete_main rem w
               = (case delete_docuware_data rem w1 of
                    None \<Rightarrow> None
                  | Some (Inl e, w2) \<Rightarrow> Some (Inr (), log ERROR ''Script failed: %s'' w2)
                  | Some (Inr u, w2) \<Rightarrow> Some (Inr (), clear_sqlite_table w2)))"
proof -
  have s: "reqs (SQLiteManager_setup w) = reqs w"
    by (simp add: SQLiteManager_setup_def log_def split: option.splits)
  have a: "insert_main rem hash src w
           = (Inl (Exception ''DocuWare login failed.''),
              log ERROR ''DocuWare login failed: %s''
                ((SQLiteManager_setup w)\<lparr>reqs := reqs w @ [PostLogon]\<rparr>))"
    using assms by (simp add: insert_main_def docuware_login_def http_def s)
  have b: "reqs (snd (insert_main rem hash src w)) = reqs w @ [PostLogon]"
    unfolding a by (simp add: log_def)
  have c: "login rem w = (Inr (), log ERROR ''Login failed: %s'' (w\<lparr>reqs := reqs w @ [PostLogon]\<rparr>))"
    using assms by (simp add: login_def http_def)
  show ?thesis
    unfolding Let_def using a b c by (simp add: delete_main_def)
qed

theorem login_failure_import_aborts_delete_proceeds_witness:
  "fixed_status 401 (reqs (fresh [entry1]) @ [PostLogon])
     = Resp \<lparr>status_code = 401, body_text = [], json_items = None\<rparr>
   \<and> status_code \<lparr>status_code = 401, body_text = [], json_items = None\<rparr> \<noteq> 200
   \<and> insert_main (fixed_status 401) const_hash
        (Rows [[(''field1'', PStr ''a''), (''field2'', PStr ''c'')]]) (fresh [entry1])
      = (Inl (Exception ''DocuWare login failed.''),
         \<lparr>db = Some [entry1], reqs = [PostLogon],
          logs = [(INFO, ''SQLite table initialized.''), (ERROR, ''DocuWare login failed: %s'')]\<rparr>)
   \<and> login (fixed_status 401) (fresh [entry1])
      = (Inr (), \<lparr>db = Some [entry1], reqs = [PostLogon], logs = [(ERROR, ''Login failed: %s'')]\<rparr>)
   \<and> delete_main (fixed_status 401) (fresh [entry1])
      = Some (Inr (),
              \<lparr>db = Some [], reqs = [PostLogon, GetDocuments],
               logs = [(ERROR, ''Login failed: %s''), (ERROR, ''Failed to load data: %s''),
                       (ERROR, []), (INFO, ''Local table cleared.'')]\<rparr>)"
proof -
  let ?r = "\<lparr>status_code = 401, body_text = [], json_items = None\<rparr>"
  have h1: "fixed_status 401 (reqs (fresh [entry1]) @ [PostLogon]) = Resp ?r"
    by (simp add: fixed_status_def)
  have h2: "status_code ?r \<noteq> 200"
    by simp
  note t = login_failure_import_aborts_delete_proceeds
    [where rem = "fixed_status 401" and w = "fresh [entry1]" and r = ?r and hash = const_hash
       and src = "Rows [[(''field1'', PStr ''a''), (''field2'', PStr ''c'')]]", OF h1 h2]
  have loop: "delete_docuware_data (fixed_status 401)
          \<lparr>db = Some [entry1], reqs = [PostLogon], logs = [(ERROR, ''Login failed: %s'')]\<rparr>
        = Some (Inr (), \<lparr>db = Some [entry1], reqs = [PostLogon, GetDocuments],
                   logs = [(ERROR, ''Login failed: %s''), (ERROR, ''Failed to load data: %s''),
                           (ERROR, [])]\<rparr>)"
    by (subst delete_docuware_data.simps) (simp add: http_def fixed_status_def log_def)
  from t have r1: "insert_main (fixed_status 401) const_hash
        (Rows [[(''field1'', PStr ''a''), (''field2'', PStr ''c'')]]) (fresh [entry1])
      = (Inl (Exception ''DocuWare login failed.''),
         \<lparr>db = Some [entry1], reqs = [PostLogon],
          logs = [(INFO, ''SQLite table initialized.''), (ERROR, ''DocuWare login failed: %s'')]\<rparr>)"
    by (simp add: Let_def fresh_def log_def SQLiteManager_setup_def)
  from t have r2: "login (fixed_status 401) (fresh [entry1])
      = (Inr (), \<lparr>db = Some [entry1], reqs = [PostLogon], logs = [(ERROR, ''Login failed: %s'')]\<rparr>)"
    by (simp add: Let_def fresh_def log_def)
  from t have r3: "delete_main (fixed_status 401) (fresh [entry1])
      = Some (Inr (),
              \<lparr>db = Some [], reqs = [PostLogon, GetDocuments],
               logs = [(ERROR, ''Login failed: %s''), (ERROR, ''Failed to load data: %s''),
                       (ERROR, []), (INFO, ''Local table cleared.'')]\<rparr>)"
    by (simp add: Let_def fresh_def log_def loop clear_sqlite_table_def)
  show ?thesis
    using h1 h2 r1 r2 r3 by blast
qed

text \<open>
  Claim C6, as the code has it. The delete-all and the view entry points wrap their work
  in a catch-all: whenever they return, they return normally, and a failure (the login
  request raising, the table missing) is reported as one logged or printed line. The import
  entry point has a \<^verbatim>\<open>finally\<close> and no \<^verbatim>\<open>except\<close>: an exception raised by its login leaves
  the entry point.
\<close>

theorem delete_and_view_catch_all:
  "(\<forall>r w'. delete_main rem w = Some (r, w') \<longrightarrow> r = Inr ())
   \<and> fst (print_sqlite_table tbl w) = Inr ()
   \<and> (\<forall>e. rem (reqs w @ [PostLogon]) = Raise e \<longrightarrow>
         delete_main rem w
           = Some (Inr (), log ERROR ''Script failed: %s'' (w\<lparr>reqs := reqs w @ [PostLogon]\<rparr>)))
   \<and> (db w = None \<longrightarrow>
         print_sqlite_table tbl w = (Inr (), log STDOUT ''Error reading from SQLite: '' w))
   \<and> (\<forall>e w1. docuware_login rem (SQLiteManager_setup w) = (Inl e, w1) \<longrightarrow>
         insert_main rem hash src w = (Inl e, w1))"
proof -
  have a: "\<forall>r w'. delete_main rem w = Some (r, w') \<longrightarrow> r = Inr ()"
    by (auto simp: delete_main_def split: prod.splits sum.splits option.splits)
  have b: "fst (print_sqlite_table tbl w) = Inr ()"
    by (simp add: print_sqlite_table_def split: option.splits)
  have c: "\<forall>e. rem (reqs w @ [PostLogon]) = Raise e \<longrightarrow>
         delete_main rem w
           = Some (Inr (), log ERROR ''Script failed: %s'' (w\<lparr>reqs := reqs w @ [PostLogon]\<rparr>))"
    by (simp add: delete_main_def login_def http_def)
  have d: "db w = None \<longrightarrow>
         print_sqlite_table tbl w = (Inr (), log STDOUT ''Error reading from SQLite: '' w)"
    by (simp add: print_sqlite_table_def)
  have e: "\<forall>e w1. docuware_login rem (SQLiteManager_setup w) = (Inl e, w1) \<longrightarrow>
         insert_main rem hash src w = (Inl e, w1)"
    by (simp add: insert_main_def)
  show ?thesis
    using a b c d e by blast
qed

theorem delete_and_view_catch_all_witness:
  "delete_main unreachable blank
     = Some (Inr (), \<lparr>db = None, reqs = [PostLogon], logs = [(ERROR, ''Script failed: %s'')]\<rparr>)
   \<and> unreachable (reqs blank @ [PostLogon]) = Raise RequestException
   \<and> db blank = None
   \<and> print_sqlite_table ''cache_table'' blank
     = (Inr (), \<lparr>db = None, reqs = [], logs = [(STDOUT, ''Error reading from SQLite: '')]\<rparr>)
   \<and> docuware_login unreachable (SQLiteManager_setup blank)
     = (Inl RequestException,
        \<lparr>db = Some [], reqs = [PostLogon], logs = [(INFO, ''SQLite table initialized.'')]\<rparr>)
   \<and> insert_main unreachable const_hash (Rows []) blank
     = (Inl RequestException,
        \<lparr>db = Some [], reqs = [PostLogon], logs = [(INFO, ''SQLite table initialized.'')]\<rparr>)"
proof -
  note t = delete_and_view_catch_all
    [where rem = unreachable and w = blank and tbl = "''cache_table''" and hash = const_hash
       and src = "Rows []"]
  have h1: "unreachable (reqs blank @ [PostLogon]) = Raise RequestException"
    by (simp add: unreachable_def)
  have h2: "db blank = None"
    by (simp add: blank_def)
  have h3: "docuware_login unreachable (SQLiteManager_setup blank)
     = (Inl RequestException,
        \<lparr>db = Some [], reqs = [PostLogon], logs = [(INFO, ''SQLite table initialized.'')]\<rparr>)"
    by (simp add: docuware_login_def SQLiteManager_setup_def http_def unreachable_def blank_def
        log_def)
  from t h1 have "delete_main unreachable blank
     = Some (Inr (), log ERROR ''Script failed: %s'' (blank\<lparr>reqs := reqs blank @ [PostLogon]\<rparr>))"
    by blast
  then have r1: "delete_main unreachable blank
     = Some (Inr (), \<lparr>db = None, reqs = [PostLogon], logs = [(ERROR, ''Script failed: %s'')]\<rparr>)"
    by (simp add: blank_def log_def)
  from t h2 have "print_sqlite_table ''cache_table'' blank
     = (Inr (), log STDOUT ''Error reading from SQLite: '' blank)"
    by blast
  then have r2: "print_sqlite_table ''cache_table'' blank
     = (Inr (), \<lparr>db = None, reqs = [], logs = [(STDOUT, ''Error reading from SQLite: '')]\<rparr>)"
    by (simp add: blank_def log_def)
  from t h3 have r3: "insert_main unreachable const_hash (Rows []) blank
     = (Inl RequestException,
        \<lparr>db = Some [], reqs = [PostLogon], logs = [(INFO, ''SQLite table initialized.'')]\<rparr>)"
    by blast
  show ?thesis
    using r1 h1 h2 r2 h3 r3 by blast
qed

text \<open>
  The import entry point against a service that answers the login with 401: the exception
  "DocuWare login failed." leaves \<^verbatim>\<open>main\<close>.
\<close>

theorem import_entry_point_counterexample:
  "insert_main (fixed_status 401) const_hash (Rows []) (fresh [])
     = (Inl (Exception ''DocuWare login failed.''),
        \<lparr>db = Some [], reqs = [PostLogon],
         logs = [(INFO, ''SQLite table initialized.''), (ERROR, ''DocuWare login failed: %s'')]\<rparr>)"
  by (simp add: insert_main_def docuware_login_def SQLiteManager_setup_def http_def
      fixed_status_def fresh_def log_def)

end
